theory Spec2Isabelle
  imports Complex_Main "HOL-Library.Monad_Syntax"
begin

section \<open>Data model (src/utils/storage.ts)\<close>

text \<open>
  The two record types of the repository. A TypeScript \<open>number\<close> is an IEEE double. The
  finite doubles are rational numbers, and the \<open>number\<close> fields are modelled as rationals
  whose arithmetic rounds as the platform's does (next section); NaN and the infinities
  are not values of the model. The optional field \<open>lastRefillDate\<close> is an option. The
  fields \<open>id\<close> and \<open>times\<close> are renamed, since HOL has constants of these names.
\<close>

record Medication =
  med_id :: string
  name :: string
  dosage :: string
  med_times :: "string list"
  startDate :: string
  duration :: string
  color :: string
  reminderEnabled :: bool
  reminderRepeat :: bool
  repeatCount :: rat
  currentSupply :: rat
  totalSupply :: rat
  refillAt :: rat
  refillReminder :: bool
  lastRefillDate :: "string option"

record DoseHistory =
  dose_id :: string
  medicationId :: string
  timestamp :: string
  taken :: bool

section \<open>JavaScript numbers\<close>

text \<open>
  The difference \<open>x - y\<close> of two finite doubles is the exact difference rounded to the
  nearest double, a tie going to the even significand: a double has 53 bits of
  significand and a least exponent of -1022. (The difference of a double and 1 never
  overflows.) \<open>ilog2 r\<close> is the exponent of a positive rational: the floor of its binary
  logarithm.
\<close>

function log2_floor :: "int \<Rightarrow> int" where
  "log2_floor n = (if n < 2 then 0 else 1 + log2_floor (n div 2))"
  by auto
termination
  by (relation "measure nat") auto

definition ilog2 :: "rat \<Rightarrow> int" where
  "ilog2 r =
     (if 1 \<le> r then log2_floor \<lfloor>r\<rfloor>
      else - (1 + log2_floor (\<lceil>1 / r\<rceil> - 1)))"

definition pow2 :: "int \<Rightarrow> rat" where
  "pow2 k = (if 0 \<le> k then 2 ^ nat k else 1 / 2 ^ nat (- k))"

definition round_half_even :: "rat \<Rightarrow> int" where
  "round_half_even q =
     (let f = \<lfloor>q\<rfloor>; d = q - of_int f
      in if d < 1 / 2 then f else if 1 / 2 < d then f + 1 else if even f then f else f + 1)"

definition round_double :: "rat \<Rightarrow> rat" where
  "round_double r =
     (if r = 0 then 0
      else let e = max (ilog2 \<bar>r\<bar>) (- 1022); ulp = pow2 (e - 52)
           in of_int (round_half_even (r / ulp)) * ulp)"

definition number_minus :: "rat \<Rightarrow> rat \<Rightarrow> rat" where
  "number_minus x y = round_double (x - y)"

section \<open>JavaScript dates\<close>

text \<open>
  A JavaScript \<open>Date\<close> holds a time value: a number of milliseconds since the epoch
  (UTC) of magnitude at most 8.64e15, or NaN (an invalid date). The relational
  operators convert both dates to numbers; every comparison with NaN is false.
\<close>

datatype Date = InvalidDate | TimeValue int

definition msPerDay :: int where
  "msPerDay = 86400000"

definition maxTime :: int where
  "maxTime = 8640000000000000"

definition TimeClip :: "int \<Rightarrow> Date" where
  "TimeClip t = (if \<bar>t\<bar> > maxTime then InvalidDate else TimeValue t)"

fun date_lt :: "Date \<Rightarrow> Date \<Rightarrow> bool" where
  "date_lt (TimeValue a) (TimeValue b) = (a < b)"
| "date_lt _ _ = False"

definition date_gt :: "Date \<Rightarrow> Date \<Rightarrow> bool" where
  "date_gt a b = date_lt b a"

fun date_ge :: "Date \<Rightarrow> Date \<Rightarrow> bool" where
  "date_ge (TimeValue a) (TimeValue b) = (a \<ge> b)"
| "date_ge _ _ = False"

text \<open>
  \<open>new Date(s)\<close> for a string \<open>s\<close>: the platform's parser yields a time value or NaN
  (\<open>None\<close>), which is clipped. The parser is the platform's (its result on strings
  outside the ISO format is implementation-defined), so it is a parameter \<open>parse\<close>.
  \<open>new Date(d)\<close> for a date \<open>d\<close> copies its time value.
\<close>

definition new_Date_string :: "(string \<Rightarrow> int option) \<Rightarrow> string \<Rightarrow> Date" where
  "new_Date_string parse s = (case parse s of None \<Rightarrow> InvalidDate | Some t \<Rightarrow> TimeClip t)"

definition new_Date_copy :: "Date \<Rightarrow> Date" where
  "new_Date_copy d = (case d of InvalidDate \<Rightarrow> InvalidDate | TimeValue t \<Rightarrow> TimeClip t)"

text \<open>
  Local time is the time of the device's zone, whose offset from UTC changes with daylight
  saving. A zone gives the offset in force at an instant (\<open>offset_at\<close>, in ECMA-262
  \<open>LocalTZA(t, true)\<close>) and the offset by which a local time is read
  (\<open>offset_of_local\<close>, \<open>LocalTZA(t, false)\<close>: for a local time that a transition skips or
  repeats, the offset before the transition). All are in milliseconds.
\<close>

record zone =
  offset_at :: "int \<Rightarrow> int"
  offset_of_local :: "int \<Rightarrow> int"

definition LocalTime :: "zone \<Rightarrow> int \<Rightarrow> int" where
  "LocalTime z t = t + offset_at z t"

definition UTC :: "zone \<Rightarrow> int \<Rightarrow> int" where
  "UTC z l = l - offset_of_local z l"

definition Day :: "int \<Rightarrow> int" where
  "Day t = t div msPerDay"

definition TimeWithinDay :: "int \<Rightarrow> int" where
  "TimeWithinDay t = t mod msPerDay"

text \<open>
  \<open>d.setHours(0, 0, 0, 0)\<close> takes the local time of \<open>d\<close>, keeps its day with the time of
  day zero, and converts back. \<open>d.setDate(d.getDate() + k)\<close> takes the local time of \<open>d\<close>,
  moves its day by \<open>k\<close> calendar days, keeps its time of day, and converts back: across a
  change of offset the result is not \<open>k\<close> times 24 hours away. Both clip the result.
\<close>

definition setHours0 :: "zone \<Rightarrow> Date \<Rightarrow> Date" where
  "setHours0 z d =
     (case d of
        InvalidDate \<Rightarrow> InvalidDate
      | TimeValue tv \<Rightarrow>
          (let t = LocalTime z tv
           in TimeClip (UTC z (Day t * msPerDay))))"

definition setDate_getDate_plus :: "zone \<Rightarrow> Date \<Rightarrow> int \<Rightarrow> Date" where
  "setDate_getDate_plus z d k =
     (case d of
        InvalidDate \<Rightarrow> InvalidDate
      | TimeValue tv \<Rightarrow>
          (let t = LocalTime z tv
           in TimeClip (UTC z ((Day t + k) * msPerDay + TimeWithinDay t))))"

section \<open>The duration string\<close>

text \<open>
  \<open>duration.match(/(\d+)/)\<close> finds the first maximal run of decimal digits, and
  \<open>parseInt\<close> reads that run in base ten. \<open>parseInt\<close> yields a double; the model keeps
  the exact integer. Day counts and time values of magnitude up to 8.64e15 are computed
  exactly by doubles, and, a zone's offsets being less than a day, a count that a double
  rounds is so large that the end date is invalid in the code and in the model alike.
\<close>

definition is_digit :: "char \<Rightarrow> bool" where
  "is_digit c = (c \<in> set ''0123456789'')"

definition match_digits :: "string \<Rightarrow> string option" where
  "match_digits s =
     (let r = dropWhile (\<lambda>c. \<not> is_digit c) s
      in if r = [] then None else Some (takeWhile is_digit r))"

definition digit_value :: "char \<Rightarrow> int" where
  "digit_value c = int (of_char c) - 48"

definition parseInt :: "string \<Rightarrow> int" where
  "parseInt ds = foldl (\<lambda>a c. 10 * a + digit_value c) 0 ds"

section \<open>The scheduling predicate (calendar screen)\<close>

definition isMedicationScheduledForDate ::
  "zone \<Rightarrow> (string \<Rightarrow> int option) \<Rightarrow> Medication \<Rightarrow> Date \<Rightarrow> bool" where
  "isMedicationScheduledForDate z parse medication date =
     (let startDate0 = setHours0 z (new_Date_string parse (startDate medication));
          selectedDate = setHours0 z (new_Date_copy date)
      in if date_lt selectedDate startDate0 then False
         else if duration medication \<noteq> ''Ongoing'' then
           (case match_digits (duration medication) of
              Some ds \<Rightarrow>
                (let durationDays = parseInt ds;
                     endDate = setDate_getDate_plus z (new_Date_copy startDate0) (durationDays - 1)
                 in if date_gt selectedDate endDate then False else True)
            | None \<Rightarrow> True)
         else True)"

definition getScheduledTimesForDate ::
  "zone \<Rightarrow> (string \<Rightarrow> int option) \<Rightarrow> Medication \<Rightarrow> Date \<Rightarrow> string list" where
  "getScheduledTimesForDate z parse medication date =
     (if \<not> isMedicationScheduledForDate z parse medication date then []
      else med_times medication)"

section \<open>Serialisation\<close>

text \<open>
  Each collection is kept under one key as the JSON text of an array of objects. The
  model keeps the syntax tree of that text. \<open>JSON.stringify\<close> writes the own
  properties of an object and leaves out a property whose value is \<open>undefined\<close>;
  \<open>JSON.parse\<close> keeps the last of several properties of one name.
\<close>

datatype json =
  JNull
| JBool bool
| JNumber rat
| JString string
| JArray "json list"
| JObject "(string \<times> json) list"

definition json_of_Medication :: "Medication \<Rightarrow> json" where
  "json_of_Medication m =
     JObject
       ([(''id'', JString (med_id m)),
         (''name'', JString (name m)),
         (''dosage'', JString (dosage m)),
         (''times'', JArray (map JString (med_times m))),
         (''startDate'', JString (startDate m)),
         (''duration'', JString (duration m)),
         (''color'', JString (color m)),
         (''reminderEnabled'', JBool (reminderEnabled m)),
         (''reminderRepeat'', JBool (reminderRepeat m)),
         (''repeatCount'', JNumber (repeatCount m)),
         (''currentSupply'', JNumber (currentSupply m)),
         (''totalSupply'', JNumber (totalSupply m)),
         (''refillAt'', JNumber (refillAt m)),
         (''refillReminder'', JBool (refillReminder m))]
        @ (case lastRefillDate m of
             None \<Rightarrow> []
           | Some d \<Rightarrow> [(''lastRefillDate'', JString d)]))"

definition json_of_DoseHistory :: "DoseHistory \<Rightarrow> json" where
  "json_of_DoseHistory d =
     JObject
       [(''id'', JString (dose_id d)),
        (''medicationId'', JString (medicationId d)),
        (''timestamp'', JString (timestamp d)),
        (''taken'', JBool (taken d))]"

definition get_prop :: "(string \<times> json) list \<Rightarrow> string \<Rightarrow> json option" where
  "get_prop kvs k = map_of (rev kvs) k"

fun as_string :: "json option \<Rightarrow> string option" where
  "as_string (Some (JString s)) = Some s"
| "as_string _ = None"

fun as_bool :: "json option \<Rightarrow> bool option" where
  "as_bool (Some (JBool b)) = Some b"
| "as_bool _ = None"

fun as_number :: "json option \<Rightarrow> rat option" where
  "as_number (Some (JNumber n)) = Some n"
| "as_number _ = None"

fun as_optional_string :: "json option \<Rightarrow> string option option" where
  "as_optional_string None = Some None"
| "as_optional_string (Some (JString s)) = Some (Some s)"
| "as_optional_string _ = None"

fun all_some :: "'a option list \<Rightarrow> 'a list option" where
  "all_some [] = Some []"
| "all_some (None # xs) = None"
| "all_some (Some x # xs) = map_option (Cons x) (all_some xs)"

fun as_string_list :: "json option \<Rightarrow> string list option" where
  "as_string_list (Some (JArray js)) = all_some (map (\<lambda>j. as_string (Some j)) js)"
| "as_string_list _ = None"

fun Medication_of_json :: "json \<Rightarrow> Medication option" where
  "Medication_of_json (JObject kvs) =
     do {
       v1 \<leftarrow> as_string (get_prop kvs ''id'');
       v2 \<leftarrow> as_string (get_prop kvs ''name'');
       v3 \<leftarrow> as_string (get_prop kvs ''dosage'');
       v4 \<leftarrow> as_string_list (get_prop kvs ''times'');
       v5 \<leftarrow> as_string (get_prop kvs ''startDate'');
       v6 \<leftarrow> as_string (get_prop kvs ''duration'');
       v7 \<leftarrow> as_string (get_prop kvs ''color'');
       v8 \<leftarrow> as_bool (get_prop kvs ''reminderEnabled'');
       v9 \<leftarrow> as_bool (get_prop kvs ''reminderRepeat'');
       v10 \<leftarrow> as_number (get_prop kvs ''repeatCount'');
       v11 \<leftarrow> as_number (get_prop kvs ''currentSupply'');
       v12 \<leftarrow> as_number (get_prop kvs ''totalSupply'');
       v13 \<leftarrow> as_number (get_prop kvs ''refillAt'');
       v14 \<leftarrow> as_bool (get_prop kvs ''refillReminder'');
       v15 \<leftarrow> as_optional_string (get_prop kvs ''lastRefillDate'');
       Some \<lparr>med_id = v1, name = v2, dosage = v3, med_times = v4, startDate = v5,
             duration = v6, color = v7, reminderEnabled = v8, reminderRepeat = v9,
             repeatCount = v10, currentSupply = v11, totalSupply = v12, refillAt = v13,
             refillReminder = v14, lastRefillDate = v15\<rparr>
     }"
| "Medication_of_json _ = None"

fun DoseHistory_of_json :: "json \<Rightarrow> DoseHistory option" where
  "DoseHistory_of_json (JObject kvs) =
     do {
       v1 \<leftarrow> as_string (get_prop kvs ''id'');
       v2 \<leftarrow> as_string (get_prop kvs ''medicationId'');
       v3 \<leftarrow> as_string (get_prop kvs ''timestamp'');
       v4 \<leftarrow> as_bool (get_prop kvs ''taken'');
       Some \<lparr>dose_id = v1, medicationId = v2, timestamp = v3, taken = v4\<rparr>
     }"
| "DoseHistory_of_json _ = None"

definition stringify_Medications :: "Medication list \<Rightarrow> json" where
  "stringify_Medications ms = JArray (map json_of_Medication ms)"

fun parse_Medications :: "json \<Rightarrow> Medication list option" where
  "parse_Medications (JArray js) = all_some (map Medication_of_json js)"
| "parse_Medications _ = None"

definition stringify_DoseHistory :: "DoseHistory list \<Rightarrow> json" where
  "stringify_DoseHistory ds = JArray (map json_of_DoseHistory ds)"

fun parse_DoseHistory :: "json \<Rightarrow> DoseHistory list option" where
  "parse_DoseHistory (JArray js) = all_some (map DoseHistory_of_json js)"
| "parse_DoseHistory _ = None"

section \<open>The key-value store\<close>

text \<open>
  AsyncStorage maps keys to blobs. Each of its calls may fail: \<open>faults\<close> says, for the
  calls made during one repository operation, which key fails with which error. A
  failed call leaves the store as it was.
\<close>

type_synonym storage = "string \<rightharpoonup> json"

datatype error = Error string

record faults =
  getItem_fault :: "string \<Rightarrow> error option"
  setItem_fault :: "string \<Rightarrow> error option"
  removeItem_fault :: "string \<Rightarrow> error option"

definition no_faults :: faults where
  "no_faults = \<lparr>getItem_fault = (\<lambda>k. None), setItem_fault = (\<lambda>k. None),
                 removeItem_fault = (\<lambda>k. None)\<rparr>"

definition MEDICATIONS_KEY :: string where
  "MEDICATIONS_KEY = ''@medications''"

definition DOSE_HISTORY_KEY :: string where
  "DOSE_HISTORY_KEY = ''@dose_history''"

definition getItem :: "faults \<Rightarrow> string \<Rightarrow> storage \<Rightarrow> error + json option" where
  "getItem fl key st = (case getItem_fault fl key of Some e \<Rightarrow> Inl e | None \<Rightarrow> Inr (st key))"

definition setItem :: "faults \<Rightarrow> string \<Rightarrow> json \<Rightarrow> storage \<Rightarrow> (error + unit) \<times> storage" where
  "setItem fl key v st =
     (case setItem_fault fl key of
        Some e \<Rightarrow> (Inl e, st)
      | None \<Rightarrow> (Inr (), st(key \<mapsto> v)))"

definition removeItem :: "faults \<Rightarrow> string \<Rightarrow> storage \<Rightarrow> (error + unit) \<times> storage" where
  "removeItem fl key st =
     (case removeItem_fault fl key of
        Some e \<Rightarrow> (Inl e, st)
      | None \<Rightarrow> (Inr (), st(key := None)))"

section \<open>The record repository (src/utils/storage.ts)\<close>

text \<open>
  A read catches every error and returns the empty list. A blob that is not the text of
  a list of records makes the read fail in the same way. A write operation logs an
  error and throws it again: its result is \<open>Inl\<close> of that error, with the store as
  the failed call left it.
\<close>

definition getMedications :: "faults \<Rightarrow> storage \<Rightarrow> Medication list" where
  "getMedications fl st =
     (case getItem fl MEDICATIONS_KEY st of
        Inl e \<Rightarrow> []
      | Inr None \<Rightarrow> []
      | Inr (Some data) \<Rightarrow> (case parse_Medications data of None \<Rightarrow> [] | Some ms \<Rightarrow> ms))"

definition addMedication :: "faults \<Rightarrow> Medication \<Rightarrow> storage \<Rightarrow> (error + unit) \<times> storage" where
  "addMedication fl medication st =
     (let medications = getMedications fl st;
          medications1 = medications @ [medication]
      in setItem fl MEDICATIONS_KEY (stringify_Medications medications1) st)"

fun findIndex :: "('a \<Rightarrow> bool) \<Rightarrow> 'a list \<Rightarrow> nat option" where
  "findIndex P [] = None"
| "findIndex P (x # xs) = (if P x then Some 0 else map_option Suc (findIndex P xs))"

definition updateMedication :: "faults \<Rightarrow> Medication \<Rightarrow> storage \<Rightarrow> (error + unit) \<times> storage" where
  "updateMedication fl updatedMedication st =
     (let medications = getMedications fl st
      in case findIndex (\<lambda>med. med_id med = med_id updatedMedication) medications of
           Some index \<Rightarrow>
             setItem fl MEDICATIONS_KEY
               (stringify_Medications (medications[index := updatedMedication])) st
         | None \<Rightarrow> (Inr (), st))"

definition deleteMedication :: "faults \<Rightarrow> string \<Rightarrow> storage \<Rightarrow> (error + unit) \<times> storage" where
  "deleteMedication fl i st =
     (let medications = getMedications fl st;
          updatedMedications = filter (\<lambda>med. med_id med \<noteq> i) medications
      in setItem fl MEDICATIONS_KEY (stringify_Medications updatedMedications) st)"

definition getDoseHistory :: "faults \<Rightarrow> storage \<Rightarrow> DoseHistory list" where
  "getDoseHistory fl st =
     (case getItem fl DOSE_HISTORY_KEY st of
        Inl e \<Rightarrow> []
      | Inr None \<Rightarrow> []
      | Inr (Some data) \<Rightarrow> (case parse_DoseHistory data of None \<Rightarrow> [] | Some ds \<Rightarrow> ds))"

text \<open>
  \<open>recordDose\<close>: the identifier drawn from \<open>Math.random()\<close> is the parameter \<open>rid\<close>. The
  guard and the decrement of the supply are those of doubles.
\<close>

definition recordDose ::
  "faults \<Rightarrow> string \<Rightarrow> string \<Rightarrow> bool \<Rightarrow> string \<Rightarrow> storage \<Rightarrow> (error + unit) \<times> storage" where
  "recordDose fl rid mid tk ts st =
     (let history = getDoseHistory fl st;
          newDose = \<lparr>dose_id = rid, medicationId = mid, timestamp = ts, taken = tk\<rparr>;
          history1 = history @ [newDose]
      in case setItem fl DOSE_HISTORY_KEY (stringify_DoseHistory history1) st of
           (Inl e, st1) \<Rightarrow> (Inl e, st1)
         | (Inr u, st1) \<Rightarrow>
             if tk then
               (let medications = getMedications fl st1
                in case find (\<lambda>med. med_id med = mid) medications of
                     Some medication \<Rightarrow>
                       if currentSupply medication > 0 then
                         updateMedication fl
                           (medication\<lparr>currentSupply := number_minus (currentSupply medication) 1\<rparr>)
                           st1
                       else (Inr (), st1)
                   | None \<Rightarrow> (Inr (), st1))
             else (Inr (), st1))"

definition clearAllData :: "faults \<Rightarrow> storage \<Rightarrow> (error + unit) \<times> storage" where
  "clearAllData fl st =
     (case removeItem fl MEDICATIONS_KEY st of
        (Inl e, st1) \<Rightarrow> (Inl e, st1)
      | (Inr u, st1) \<Rightarrow> removeItem fl DOSE_HISTORY_KEY st1)"

definition clearDataForDateRange ::
  "faults \<Rightarrow> (string \<Rightarrow> int option) \<Rightarrow> Date \<Rightarrow> Date \<Rightarrow> storage \<Rightarrow> (error + unit) \<times> storage" where
  "clearDataForDateRange fl parse startDate' endDate' st =
     (let medications = getMedications fl st;
          doseHistory = getDoseHistory fl st;
          filteredMedications =
            filter (\<lambda>med. let medStartDate = new_Date_string parse (startDate med)
                          in date_lt medStartDate startDate' \<or> date_gt medStartDate endDate')
              medications;
          filteredDoseHistory =
            filter (\<lambda>dose. let doseDate = new_Date_string parse (timestamp dose)
                           in date_lt doseDate startDate' \<or> date_gt doseDate endDate')
              doseHistory
      in case setItem fl MEDICATIONS_KEY (stringify_Medications filteredMedications) st of
           (Inl e, st1) \<Rightarrow> (Inl e, st1)
         | (Inr u, st1) \<Rightarrow>
             setItem fl DOSE_HISTORY_KEY (stringify_DoseHistory filteredDoseHistory) st1)"

definition clearOldData ::
  "faults \<Rightarrow> (string \<Rightarrow> int option) \<Rightarrow> Date \<Rightarrow> storage \<Rightarrow> (error + unit) \<times> storage" where
  "clearOldData fl parse beforeDate st =
     (let medications = getMedications fl st;
          doseHistory = getDoseHistory fl st;
          filteredMedications =
            filter (\<lambda>med. date_ge (new_Date_string parse (startDate med)) beforeDate) medications;
          filteredDoseHistory =
            filter (\<lambda>dose. date_ge (new_Date_string parse (timestamp dose)) beforeDate) doseHistory
      in case setItem fl MEDICATIONS_KEY (stringify_Medications filteredMedications) st of
           (Inl e, st1) \<Rightarrow> (Inl e, st1)
         | (Inr u, st1) \<Rightarrow>
             setItem fl DOSE_HISTORY_KEY (stringify_DoseHistory filteredDoseHistory) st1)"

section \<open>Vocabulary of the properties\<close>

text \<open>
  The calendar day of an instant in the zone, and the instant at which a local day starts
  (what \<open>setHours(0, 0, 0, 0)\<close> yields on that day).
\<close>

definition localDay :: "zone \<Rightarrow> int \<Rightarrow> int" where
  "localDay z t = Day (LocalTime z t)"

definition startOfDay :: "zone \<Rightarrow> int \<Rightarrow> int" where
  "startOfDay z D = UTC z (D * msPerDay)"

text \<open>
  A zone is regular when the start of every local day lies in that day, and every local
  time of a day denotes an instant from the start of that day up to the start of the next.
  This holds of a zone with one offset, and of a zone whose offset changes by an hour
  within a day, as with daylight saving.
\<close>

definition regular_zone :: "zone \<Rightarrow> bool" where
  "regular_zone z \<longleftrightarrow>
     (\<forall>D. localDay z (startOfDay z D) = D)
     \<and> (\<forall>D w. 0 \<le> w \<and> w < msPerDay \<longrightarrow>
            startOfDay z D \<le> UTC z (D * msPerDay + w)
            \<and> UTC z (D * msPerDay + w) < startOfDay z (D + 1))"

text \<open>
  Two zones for the examples: one with a fixed offset, and New York in 2024, five hours
  behind UTC, and four from 2024-03-10 07:00 UTC to 2024-11-03 06:00 UTC (local times
  from 03:00 on 10 March up to 02:00 on 3 November are read with four).
\<close>

definition fixed_zone :: "int \<Rightarrow> zone" where
  "fixed_zone c = \<lparr>offset_at = (\<lambda>t. c), offset_of_local = (\<lambda>l. c)\<rparr>"


text \<open>
  An instance of the platform's date parser for the examples: the date-only form
  \<open>YYYY-MM-DD\<close> of the ECMAScript date-time format, which denotes midnight UTC of that
  day. Every other string is outside this instance. \<open>isoDateTime\<close> reads in addition the
  form \<open>YYYY-MM-DDTHH:mm:ss.sssZ\<close> that \<open>toISOString\<close> writes.
\<close>

definition days_from_civil :: "int \<Rightarrow> int \<Rightarrow> int \<Rightarrow> int" where
  "days_from_civil y m d =
     (let y1 = (if m \<le> 2 then y - 1 else y);
          era = y1 div 400;
          yoe = y1 - era * 400;
          doy = (153 * (if m > 2 then m - 3 else m + 9) + 2) div 5 + d - 1;
          doe = yoe * 365 + yoe div 4 - yoe div 100 + doy
      in era * 146097 + doe - 719468)"

definition days_in_month :: "int \<Rightarrow> int \<Rightarrow> int" where
  "days_in_month y m =
     (if m = 2 then (if y mod 4 = 0 \<and> (y mod 100 \<noteq> 0 \<or> y mod 400 = 0) then 29 else 28)
      else if m = 4 \<or> m = 6 \<or> m = 9 \<or> m = 11 then 30 else 31)"

definition isoDate :: "string \<Rightarrow> int option" where
  "isoDate s =
     (let y = take 4 s; m = take 2 (drop 5 s); d = take 2 (drop 8 s)
      in if length s = 10 \<and> s ! 4 = CHR ''-'' \<and> s ! 7 = CHR ''-''
            \<and> list_all is_digit (y @ m @ d)
            \<and> 1 \<le> parseInt m \<and> parseInt m \<le> 12
            \<and> 1 \<le> parseInt d \<and> parseInt d \<le> days_in_month (parseInt y) (parseInt m)
         then Some (days_from_civil (parseInt y) (parseInt m) (parseInt d) * msPerDay)
         else None)"


text \<open>A date falls within the range from \<open>a\<close> to \<open>b\<close>, both ends included.\<close>

fun date_within :: "Date \<Rightarrow> Date \<Rightarrow> Date \<Rightarrow> bool" where
  "date_within (TimeValue t) (TimeValue a) (TimeValue b) = (a \<le> t \<and> t \<le> b)"
| "date_within _ _ _ = False"

text \<open>The store once \<open>recordDose\<close> has written the history with the new entry.\<close>

definition dose_written ::
  "faults \<Rightarrow> string \<Rightarrow> string \<Rightarrow> bool \<Rightarrow> string \<Rightarrow> storage \<Rightarrow> storage" where
  "dose_written fl rid mid tk ts st =
     st(DOSE_HISTORY_KEY \<mapsto>
          stringify_DoseHistory
            (getDoseHistory fl st
             @ [\<lparr>dose_id = rid, medicationId = mid, timestamp = ts, taken = tk\<rparr>]))"

text \<open>
  A supply count as the data model has it: a whole number that is not negative, up to
  2^53, the range in which doubles count exactly.
\<close>

definition whole_count :: "rat \<Rightarrow> bool" where
  "whole_count x = (x = of_int \<lfloor>x\<rfloor> \<and> 0 \<le> x \<and> x \<le> 9007199254740992)"

text \<open>
  The states the repository can reach from an empty store: by any of its operations, with
  any arguments and under any faults of the store, where a medication handed to
  \<open>addMedication\<close> or \<open>updateMedication\<close> has such a supply count.
\<close>

inductive reachable :: "storage \<Rightarrow> bool" where
  r_initial: "reachable Map.empty"
| r_add: "reachable st \<Longrightarrow> whole_count (currentSupply m)
          \<Longrightarrow> reachable (snd (addMedication fl m st))"
| r_update: "reachable st \<Longrightarrow> whole_count (currentSupply m)
          \<Longrightarrow> reachable (snd (updateMedication fl m st))"
| r_delete: "reachable st \<Longrightarrow> reachable (snd (deleteMedication fl i st))"
| r_record: "reachable st \<Longrightarrow> reachable (snd (recordDose fl rid mid tk ts st))"
| r_clearAll: "reachable st \<Longrightarrow> reachable (snd (clearAllData fl st))"
| r_clearRange: "reachable st \<Longrightarrow> reachable (snd (clearDataForDateRange fl parse a b st))"
| r_clearOld: "reachable st \<Longrightarrow> reachable (snd (clearOldData fl parse b st))"

definition supplies_ok :: "storage \<Rightarrow> bool" where
  "supplies_ok st = (\<forall>fl. \<forall>x \<in> set (getMedications fl st). whole_count (currentSupply x))"

text \<open>Example data.\<close>

definition aspirin :: Medication where
  "aspirin =
     \<lparr>med_id = ''m1'', name = ''Aspirin'', dosage = ''100 mg'', med_times = [''09:00'', ''21:00''],
      startDate = ''2024-01-01'', duration = ''30 days'', color = ''#4CAF50'',
      reminderEnabled = True, reminderRepeat = False, repeatCount = 0, currentSupply = 1,
      totalSupply = 30, refillAt = 5, refillReminder = True, lastRefillDate = None\<rparr>"

definition ibuprofen :: Medication where
  "ibuprofen =
     \<lparr>med_id = ''m2'', name = ''Ibuprofen'', dosage = ''200 mg'', med_times = [''12:00''],
      startDate = ''2024-02-01'', duration = ''Ongoing'', color = ''#2196F3'',
      reminderEnabled = False, reminderRepeat = False, repeatCount = 0, currentSupply = 0,
      totalSupply = 20, refillAt = 3, refillReminder = False, lastRefillDate = Some ''2024-02-10''\<rparr>"

definition example_store :: storage where
  "example_store =
     [MEDICATIONS_KEY \<mapsto> stringify_Medications [aspirin, ibuprofen],
      DOSE_HISTORY_KEY \<mapsto>
        stringify_DoseHistory
          [\<lparr>dose_id = ''d0'', medicationId = ''m1'', timestamp = ''2024-01-15'', taken = True\<rparr>,
           \<lparr>dose_id = ''d1'', medicationId = ''m2'', timestamp = ''2024-02-01'', taken = False\<rparr>]]"

definition failing_reads :: faults where
  "failing_reads =
     \<lparr>getItem_fault = (\<lambda>k. Some (Error ''read'')), setItem_fault = (\<lambda>k. None),
      removeItem_fault = (\<lambda>k. None)\<rparr>"

definition failing_writes :: faults where
  "failing_writes =
     \<lparr>getItem_fault = (\<lambda>k. None), setItem_fault = (\<lambda>k. Some (Error ''write'')),
      removeItem_fault = (\<lambda>k. Some (Error ''write''))\<rparr>"

section \<open>Numbers: basic facts\<close>

declare log2_floor.simps [simp del]

lemma log2_floor_small: "n < 2 \<Longrightarrow> log2_floor n = 0"
  by (subst log2_floor.simps) simp

lemma log2_floor_step: "2 \<le> n \<Longrightarrow> log2_floor n = 1 + log2_floor (n div 2)"
  by (subst log2_floor.simps) simp

lemma log2_floor_less: "n < 2 ^ Suc k \<Longrightarrow> log2_floor n \<le> int k"
proof (induction k arbitrary: n)
  case 0
  then show ?case by (simp add: log2_floor_small)
next
  case (Suc k)
  show ?case
  proof (cases "n < 2")
    case True
    then show ?thesis by (simp add: log2_floor_small)
  next
    case False
    have "n div 2 < 2 ^ Suc k"
      using Suc.prems by auto
    then have "log2_floor (n div 2) \<le> int k"
      by (rule Suc.IH)
    then show ?thesis
      using False by (simp add: log2_floor_step)
  qed
qed

lemma log2_floor_nonneg: "0 \<le> log2_floor n"
proof (induction n rule: log2_floor.induct)
  case (1 n)
  then show ?case
    by (cases "n < 2") (simp_all add: log2_floor_small log2_floor_step)
qed

lemma round_half_even_of_int: "round_half_even (of_int j) = j"
  by (simp add: round_half_even_def)

lemma round_double_of_int:
  assumes "0 \<le> n" and "n < 2 ^ 53"
  shows "round_double (of_int n) = of_int n"
proof (cases "n = 0")
  case True
  then show ?thesis by (simp add: round_double_def)
next
  case False
  then have pos: "1 \<le> n"
    using assms(1) by simp
  define e where "e = nat (log2_floor n)"
  have "log2_floor n \<le> int 52"
    using assms(2) by (intro log2_floor_less) simp
  then have e: "e \<le> 52" and ee: "log2_floor n = int e"
    using log2_floor_nonneg [of n] by (simp_all add: e_def)
  have il: "ilog2 \<bar>of_int n\<bar> = int e"
    using pos by (simp add: ilog2_def ee)
  have "nat (52 - int e) = 52 - e"
    by simp
  then have ulp: "pow2 (int e - 52) = 1 / 2 ^ (52 - e)"
    using e by (cases "e = 52") (simp_all add: pow2_def)
  have q: "(of_int n :: rat) / (1 / 2 ^ (52 - e)) = of_int (n * 2 ^ (52 - e))"
    by simp
  have "round_double (of_int n)
        = of_int (round_half_even (of_int n / (1 / 2 ^ (52 - e)))) * (1 / 2 ^ (52 - e))"
    using False by (simp add: round_double_def il ulp Let_def)
  also have "\<dots> = of_int (n * 2 ^ (52 - e)) * (1 / 2 ^ (52 - e))"
    by (simp only: q round_half_even_of_int)
  also have "\<dots> = of_int n"
    by simp
  finally show ?thesis .
qed

lemma whole_count_decrement:
  assumes "whole_count x" and "0 < x"
  shows "number_minus x 1 = x - 1 \<and> whole_count (x - 1)"
proof -
  define n where "n = \<lfloor>x\<rfloor>"
  have x: "x = of_int n" and hi: "x \<le> 9007199254740992"
    using assms(1) by (simp_all add: whole_count_def n_def)
  have n1: "1 \<le> n"
    using assms(2) x by simp
  have "(of_int n :: rat) \<le> of_int 9007199254740992"
    using hi x by simp
  then have n2: "n \<le> 9007199254740992"
    by (simp only: of_int_le_iff)
  have "round_double (of_int (n - 1)) = of_int (n - 1)"
    using n1 n2 by (intro round_double_of_int) simp_all
  then have "number_minus x 1 = x - 1"
    by (simp add: number_minus_def x)
  moreover have "whole_count (of_int (n - 1))"
    unfolding whole_count_def using n1 n2 by (simp del: of_int_diff)
  ultimately show ?thesis
    by (simp add: x)
qed

lemma number_minus_examples:
  "number_minus 9007199254740994 1 = 9007199254740992"
  "number_minus (1 / 2) 1 = - (1 / 2)"
  "round_double 9007199254740994 = 9007199254740994"
  "round_double (1 / 2) = 1 / 2"
  by code_simp+

lemma number_minus_one_one: "number_minus 1 1 = 0"
  by (simp add: number_minus_def round_double_def)

lemma whole_count_examples: "whole_count 0" "whole_count 1" "\<not> whole_count (1 / 2)"
  "\<not> whole_count 9007199254740994"
  by code_simp+

section \<open>Dates and durations: basic facts\<close>












section \<open>Local days\<close>








lemma regular_fixed_zone: "regular_zone (fixed_zone c)"
  by (simp add: regular_zone_def fixed_zone_def localDay_def startOfDay_def LocalTime_def UTC_def
        Day_def msPerDay_def)


section \<open>Serialisation round trip and reads\<close>

lemma all_some_map_Some: "all_some (map Some xs) = Some xs"
  by (induction xs) simp_all

lemma all_some_map_comp: "(\<And>x. f (g x) = Some x) \<Longrightarrow> all_some (map f (map g xs)) = Some xs"
  by (induction xs) simp_all

lemma Medication_roundtrip: "Medication_of_json (json_of_Medication m) = Some m"
  by (cases "lastRefillDate m")
     (simp_all add: json_of_Medication_def get_prop_def comp_def all_some_map_Some)

lemma DoseHistory_roundtrip: "DoseHistory_of_json (json_of_DoseHistory d) = Some d"
  by (simp add: json_of_DoseHistory_def get_prop_def)

lemma parse_stringify_Medications: "parse_Medications (stringify_Medications ms) = Some ms"
  unfolding stringify_Medications_def parse_Medications.simps
  by (rule all_some_map_comp) (rule Medication_roundtrip)

lemma parse_stringify_DoseHistory: "parse_DoseHistory (stringify_DoseHistory ds) = Some ds"
  unfolding stringify_DoseHistory_def parse_DoseHistory.simps
  by (rule all_some_map_comp) (rule DoseHistory_roundtrip)

lemma keys_distinct: "MEDICATIONS_KEY \<noteq> DOSE_HISTORY_KEY"
  by (simp add: MEDICATIONS_KEY_def DOSE_HISTORY_KEY_def)

lemma getMedications_stored:
  "getItem_fault fl MEDICATIONS_KEY = None \<Longrightarrow> st MEDICATIONS_KEY = Some (stringify_Medications ms)
   \<Longrightarrow> getMedications fl st = ms"
  by (simp add: getMedications_def getItem_def parse_stringify_Medications)

lemma getDoseHistory_stored:
  "getItem_fault fl DOSE_HISTORY_KEY = None \<Longrightarrow> st DOSE_HISTORY_KEY = Some (stringify_DoseHistory ds)
   \<Longrightarrow> getDoseHistory fl st = ds"
  by (simp add: getDoseHistory_def getItem_def parse_stringify_DoseHistory)

lemma getMedications_other_key:
  "k \<noteq> MEDICATIONS_KEY \<Longrightarrow> getMedications fl (st(k := v)) = getMedications fl st"
  by (simp add: getMedications_def getItem_def split: option.splits)

lemma getDoseHistory_other_key:
  "k \<noteq> DOSE_HISTORY_KEY \<Longrightarrow> getDoseHistory fl (st(k := v)) = getDoseHistory fl st"
  by (simp add: getDoseHistory_def getItem_def split: option.splits)

lemma getMedications_faulty:
  "getItem_fault fl MEDICATIONS_KEY = Some e \<Longrightarrow> getMedications fl st = []"
  by (simp add: getMedications_def getItem_def)

lemma getMedications_absent: "st MEDICATIONS_KEY = None \<Longrightarrow> getMedications fl st = []"
  by (simp add: getMedications_def getItem_def split: option.splits)

lemma getDoseHistory_faulty:
  "getItem_fault fl DOSE_HISTORY_KEY = Some e \<Longrightarrow> getDoseHistory fl st = []"
  by (simp add: getDoseHistory_def getItem_def)

lemma getDoseHistory_absent: "st DOSE_HISTORY_KEY = None \<Longrightarrow> getDoseHistory fl st = []"
  by (simp add: getDoseHistory_def getItem_def split: option.splits)

lemma getMedications_written:
  "getMedications fl (st(MEDICATIONS_KEY \<mapsto> stringify_Medications ms))
   = (if getItem_fault fl MEDICATIONS_KEY = None then ms else [])"
  by (simp add: getMedications_def getItem_def parse_stringify_Medications split: option.splits)

lemma getDoseHistory_written:
  "getDoseHistory fl (st(DOSE_HISTORY_KEY \<mapsto> stringify_DoseHistory ds))
   = (if getItem_fault fl DOSE_HISTORY_KEY = None then ds else [])"
  by (simp add: getDoseHistory_def getItem_def parse_stringify_DoseHistory split: option.splits)

lemma getMedications_dose_written:
  "getMedications fl (st(DOSE_HISTORY_KEY := v)) = getMedications fl st"
  using keys_distinct by (simp add: getMedications_other_key)

lemma getDoseHistory_medications_written:
  "getDoseHistory fl (st(MEDICATIONS_KEY := v)) = getDoseHistory fl st"
  using keys_distinct by (simp add: getDoseHistory_other_key)

subsection \<open>\<open>findIndex\<close> and \<open>find\<close>\<close>

lemma findIndex_None_iff: "findIndex P xs = None \<longleftrightarrow> (\<forall>x \<in> set xs. \<not> P x)"
  by (induction xs) auto

lemma findIndex_Some:
  "findIndex P xs = Some i \<Longrightarrow> i < length xs \<and> P (xs ! i) \<and> (\<forall>j<i. \<not> P (xs ! j))"
proof (induction xs arbitrary: i)
  case Nil
  then show ?case by simp
next
  case (Cons x xs)
  show ?case
  proof (cases "P x")
    case True
    with Cons.prems show ?thesis by simp
  next
    case False
    with Cons.prems obtain k where k: "findIndex P xs = Some k" "i = Suc k"
      by auto
    from Cons.IH [OF k(1)] False k(2) show ?thesis
      by (auto simp: less_Suc_eq_0_disj)
  qed
qed

lemma find_findIndex:
  "find P xs = (case findIndex P xs of None \<Rightarrow> None | Some i \<Rightarrow> Some (xs ! i))"
  by (induction xs) (auto split: option.splits)

lemma findIndex_update:
  "findIndex P xs = Some i \<Longrightarrow> P y \<Longrightarrow> findIndex P (xs[i := y]) = Some i"
proof (induction xs arbitrary: i)
  case Nil
  then show ?case by simp
next
  case (Cons x xs)
  then show ?case
    by (cases "P x") auto
qed

section \<open>Effects of the operations\<close>

lemma addMedication_ok:
  assumes "setItem_fault fl MEDICATIONS_KEY = None"
  shows "addMedication fl m st
         = (Inr (), st(MEDICATIONS_KEY \<mapsto> stringify_Medications (getMedications fl st @ [m])))"
  using assms by (simp add: addMedication_def setItem_def)

lemma updateMedication_no_match:
  assumes "\<forall>x \<in> set (getMedications fl st). med_id x \<noteq> med_id m"
  shows "updateMedication fl m st = (Inr (), st)"
proof -
  have "findIndex (\<lambda>med. med_id med = med_id m) (getMedications fl st) = None"
    using assms by (simp add: findIndex_None_iff)
  then show ?thesis
    by (simp add: updateMedication_def)
qed

lemma updateMedication_match:
  assumes idx: "findIndex (\<lambda>med. med_id med = med_id m) (getMedications fl st) = Some i"
  shows "updateMedication fl m st
         = setItem fl MEDICATIONS_KEY (stringify_Medications ((getMedications fl st)[i := m])) st"
  using idx by (simp add: updateMedication_def)

lemma match_read_ok:
  assumes "x \<in> set (getMedications fl st)"
  shows "getItem_fault fl MEDICATIONS_KEY = None"
proof (cases "getItem_fault fl MEDICATIONS_KEY")
  case None
  then show ?thesis .
next
  case (Some e)
  then have "getMedications fl st = []"
    by (rule getMedications_faulty)
  with assms show ?thesis by simp
qed

lemma updateMedication_replaces_first:
  assumes ex: "\<exists>x \<in> set (getMedications fl st). med_id x = med_id m"
    and set: "setItem_fault fl MEDICATIONS_KEY = None"
  shows "\<exists>i < length (getMedications fl st).
           med_id (getMedications fl st ! i) = med_id m
           \<and> (\<forall>j < i. med_id (getMedications fl st ! j) \<noteq> med_id m)
           \<and> updateMedication fl m st
               = (Inr (), st(MEDICATIONS_KEY \<mapsto> stringify_Medications ((getMedications fl st)[i := m])))
           \<and> getMedications fl (snd (updateMedication fl m st)) = (getMedications fl st)[i := m]"
proof -
  let ?L = "getMedications fl st"
  let ?P = "\<lambda>med. med_id med = med_id m"
  from ex have "findIndex ?P ?L \<noteq> None"
    by (simp add: findIndex_None_iff)
  then obtain i where i: "findIndex ?P ?L = Some i"
    by auto
  from ex have get: "getItem_fault fl MEDICATIONS_KEY = None"
    by (auto dest: match_read_ok)
  have upd: "updateMedication fl m st
             = (Inr (), st(MEDICATIONS_KEY \<mapsto> stringify_Medications (?L[i := m])))"
    using set by (simp add: updateMedication_match [OF i] setItem_def)
  have "getMedications fl (snd (updateMedication fl m st)) = ?L[i := m]"
    using get by (simp add: upd getMedications_written)
  with findIndex_Some [OF i] upd show ?thesis
    by blast
qed

lemma getMedications_after_dose_written [simp]:
  "getMedications fl' (dose_written fl rid mid tk ts st) = getMedications fl' st"
  by (simp add: dose_written_def getMedications_dose_written)

lemma recordDose_unfold:
  assumes setd: "setItem_fault fl DOSE_HISTORY_KEY = None"
  shows "recordDose fl rid mid tk ts st =
          (if tk then
             (case find (\<lambda>med. med_id med = mid) (getMedications fl st) of
                Some medication \<Rightarrow>
                  if currentSupply medication > 0 then
                    updateMedication fl (medication\<lparr>currentSupply := number_minus (currentSupply medication) 1\<rparr>)
                      (dose_written fl rid mid tk ts st)
                  else (Inr (), dose_written fl rid mid tk ts st)
              | None \<Rightarrow> (Inr (), dose_written fl rid mid tk ts st))
           else (Inr (), dose_written fl rid mid tk ts st))"
  using setd
  by (simp add: recordDose_def setItem_def Let_def dose_written_def getMedications_dose_written
           split: option.splits)

lemma recordDose_no_decrement:
  assumes setd: "setItem_fault fl DOSE_HISTORY_KEY = None"
    and c: "find (\<lambda>med. med_id med = mid) (getMedications fl st) = None
            \<or> (\<exists>x. find (\<lambda>med. med_id med = mid) (getMedications fl st) = Some x
                    \<and> currentSupply x \<le> 0)
            \<or> \<not> tk"
  shows "recordDose fl rid mid tk ts st = (Inr (), dose_written fl rid mid tk ts st)"
  using c by (auto simp: recordDose_unfold [OF setd])

lemma recordDose_decrement:
  assumes setd: "setItem_fault fl DOSE_HISTORY_KEY = None"
    and setm: "setItem_fault fl MEDICATIONS_KEY = None"
    and idx: "findIndex (\<lambda>med. med_id med = mid) (getMedications fl st) = Some i"
    and pos: "0 < currentSupply (getMedications fl st ! i)"
  shows "recordDose fl rid mid True ts st =
           (Inr (), (dose_written fl rid mid True ts st)
              (MEDICATIONS_KEY \<mapsto> stringify_Medications
                 ((getMedications fl st)
                    [i := (getMedications fl st ! i)
                            \<lparr>currentSupply := number_minus (currentSupply (getMedications fl st ! i)) 1\<rparr>])))"
proof -
  let ?L = "getMedications fl st"
  let ?x = "?L ! i"
  let ?x' = "?x\<lparr>currentSupply := number_minus (currentSupply ?x) 1\<rparr>"
  let ?st1 = "dose_written fl rid mid True ts st"
  have f: "find (\<lambda>med. med_id med = mid) ?L = Some ?x"
    by (simp add: find_findIndex idx)
  have id: "med_id ?x' = mid"
    using findIndex_Some [OF idx] by simp
  have "findIndex (\<lambda>med. med_id med = med_id ?x') (getMedications fl ?st1) = Some i"
    using idx by (simp only: id getMedications_after_dose_written)
  then have "updateMedication fl ?x' ?st1
             = setItem fl MEDICATIONS_KEY (stringify_Medications ((getMedications fl ?st1)[i := ?x'])) ?st1"
    by (rule updateMedication_match)
  then have "updateMedication fl ?x' ?st1
             = (Inr (), ?st1(MEDICATIONS_KEY \<mapsto> stringify_Medications (?L[i := ?x'])))"
    using setm by (simp add: setItem_def)
  then show ?thesis
    using f pos by (simp add: recordDose_unfold [OF setd])
qed

section \<open>The supply invariant\<close>

lemma supplies_ok_written:
  "\<forall>x \<in> set ms. whole_count (currentSupply x) \<Longrightarrow> supplies_ok (st(MEDICATIONS_KEY \<mapsto> stringify_Medications ms))"
  by (simp add: supplies_ok_def getMedications_written)

lemma supplies_ok_dose_key: "supplies_ok st \<Longrightarrow> supplies_ok (st(DOSE_HISTORY_KEY := v))"
  by (simp add: supplies_ok_def getMedications_dose_written)

lemma supplies_ok_removed: "supplies_ok (st(MEDICATIONS_KEY := None))"
  by (simp add: supplies_ok_def getMedications_absent)

lemma supplies_ok_setItem_Medications:
  "supplies_ok st \<Longrightarrow> \<forall>x \<in> set ms. whole_count (currentSupply x)
   \<Longrightarrow> supplies_ok (snd (setItem fl MEDICATIONS_KEY (stringify_Medications ms) st))"
  by (simp add: setItem_def supplies_ok_written split: option.splits)

lemma supplies_ok_read: "supplies_ok st \<Longrightarrow> x \<in> set (getMedications fl st) \<Longrightarrow> whole_count (currentSupply x)"
  by (simp add: supplies_ok_def)

lemma supplies_ok_addMedication:
  "supplies_ok st \<Longrightarrow> whole_count (currentSupply m) \<Longrightarrow> supplies_ok (snd (addMedication fl m st))"
  unfolding addMedication_def Let_def
  by (rule supplies_ok_setItem_Medications) (auto dest: supplies_ok_read)

lemma supplies_ok_updateMedication:
  assumes "supplies_ok st" and "whole_count (currentSupply m)"
  shows "supplies_ok (snd (updateMedication fl m st))"
proof (cases "findIndex (\<lambda>med. med_id med = med_id m) (getMedications fl st)")
  case None
  then show ?thesis
    using assms by (simp add: updateMedication_def)
next
  case (Some i)
  have "\<forall>x \<in> set ((getMedications fl st)[i := m]). whole_count (currentSupply x)"
    using assms by (auto dest!: set_update_subset_insert [THEN subsetD] dest: supplies_ok_read)
  then show ?thesis
    using assms(1) by (simp add: updateMedication_match [OF Some] supplies_ok_setItem_Medications)
qed

lemma supplies_ok_deleteMedication:
  "supplies_ok st \<Longrightarrow> supplies_ok (snd (deleteMedication fl i st))"
  unfolding deleteMedication_def Let_def
  by (rule supplies_ok_setItem_Medications) (auto dest: supplies_ok_read)

lemma supplies_ok_recordDose:
  assumes ok: "supplies_ok st"
  shows "supplies_ok (snd (recordDose fl rid mid tk ts st))"
proof (cases "setItem_fault fl DOSE_HISTORY_KEY")
  case (Some e)
  then show ?thesis
    using ok by (simp add: recordDose_def setItem_def Let_def)
next
  case None
  have ok1: "supplies_ok (dose_written fl rid mid b ts st)" for b
    using ok by (simp add: dose_written_def supplies_ok_dose_key)
  show ?thesis
  proof (cases "find (\<lambda>med. med_id med = mid) (getMedications fl st)")
    case fNone: None
    then show ?thesis
      using ok1 by (simp add: recordDose_unfold [OF None])
  next
    case (Some x)
    show ?thesis
    proof (cases "tk \<and> 0 < currentSupply x")
      case True
      have "x \<in> set (getMedications fl st)"
        using Some by (auto simp: find_Some_iff)
      then have "whole_count (currentSupply x)"
        using ok by (rule supplies_ok_read [rotated])
      then have "whole_count (currentSupply (x\<lparr>currentSupply := number_minus (currentSupply x) 1\<rparr>))"
        using True by (simp add: whole_count_decrement)
      from supplies_ok_updateMedication [OF ok1 this] True Some show ?thesis
        by (simp add: recordDose_unfold [OF None])
    next
      case False
      then show ?thesis
        using ok1 Some by (auto simp: recordDose_unfold [OF None])
    qed
  qed
qed

lemma supplies_ok_clearAllData: "supplies_ok st \<Longrightarrow> supplies_ok (snd (clearAllData fl st))"
  by (auto simp: clearAllData_def removeItem_def supplies_ok_removed supplies_ok_dose_key
           split: option.splits)

lemma supplies_ok_two_writes:
  assumes "supplies_ok st" and "\<forall>x \<in> set ms. whole_count (currentSupply x)"
  shows "supplies_ok (snd (case setItem fl MEDICATIONS_KEY (stringify_Medications ms) st of
                             (Inl e, st1) \<Rightarrow> (Inl e, st1)
                           | (Inr u, st1) \<Rightarrow> setItem fl DOSE_HISTORY_KEY v st1))"
  using assms
  by (auto simp: setItem_def supplies_ok_written supplies_ok_dose_key split: option.splits)

lemma supplies_ok_clearDataForDateRange:
  "supplies_ok st \<Longrightarrow> supplies_ok (snd (clearDataForDateRange fl parse a b st))"
  unfolding clearDataForDateRange_def Let_def
  by (rule supplies_ok_two_writes) (auto dest: supplies_ok_read)

lemma supplies_ok_clearOldData:
  "supplies_ok st \<Longrightarrow> supplies_ok (snd (clearOldData fl parse b st))"
  unfolding clearOldData_def Let_def
  by (rule supplies_ok_two_writes) (auto dest: supplies_ok_read)

lemma reachable_supplies_ok: "reachable st \<Longrightarrow> supplies_ok st"
proof (induction rule: reachable.induct)
  case r_initial
  show ?case by (simp add: supplies_ok_def getMedications_absent)
qed (simp_all add: supplies_ok_addMedication supplies_ok_updateMedication
       supplies_ok_deleteMedication supplies_ok_recordDose supplies_ok_clearAllData
       supplies_ok_clearDataForDateRange supplies_ok_clearOldData)

section \<open>Further facts used by the properties\<close>

lemma no_faults_simps:
  "getItem_fault no_faults k = None" "setItem_fault no_faults k = None"
  "removeItem_fault no_faults k = None"
  by (simp_all add: no_faults_def)

lemma example_store_reads:
  "getMedications no_faults example_store = [aspirin, ibuprofen]"
  "getDoseHistory no_faults example_store
   = [\<lparr>dose_id = ''d0'', medicationId = ''m1'', timestamp = ''2024-01-15'', taken = True\<rparr>,
      \<lparr>dose_id = ''d1'', medicationId = ''m2'', timestamp = ''2024-02-01'', taken = False\<rparr>]"
proof -
  show "getMedications no_faults example_store = [aspirin, ibuprofen]"
    by (rule getMedications_stored) (simp_all add: no_faults_simps example_store_def keys_distinct)
  show "getDoseHistory no_faults example_store
   = [\<lparr>dose_id = ''d0'', medicationId = ''m1'', timestamp = ''2024-01-15'', taken = True\<rparr>,
      \<lparr>dose_id = ''d1'', medicationId = ''m2'', timestamp = ''2024-02-01'', taken = False\<rparr>]"
    by (rule getDoseHistory_stored) (simp_all add: no_faults_simps example_store_def)
qed

lemma getDoseHistory_dose_written:
  "getItem_fault fl DOSE_HISTORY_KEY = None \<Longrightarrow>
   getDoseHistory fl (dose_written fl rid mid tk ts st)
   = getDoseHistory fl st @ [\<lparr>dose_id = rid, medicationId = mid, timestamp = ts, taken = tk\<rparr>]"
  by (simp add: dose_written_def getDoseHistory_written)

lemma recordDose_effect:
  assumes get: "getItem_fault fl MEDICATIONS_KEY = None"
    and setm: "setItem_fault fl MEDICATIONS_KEY = None"
    and setd: "setItem_fault fl DOSE_HISTORY_KEY = None"
  shows "fst (recordDose fl r mid tk t s) = Inr ()
         \<and> getMedications fl (snd (recordDose fl r mid tk t s))
           = (case findIndex (\<lambda>med. med_id med = mid) (getMedications fl s) of
                None \<Rightarrow> getMedications fl s
              | Some i \<Rightarrow>
                  if tk \<and> 0 < currentSupply (getMedications fl s ! i)
                  then (getMedications fl s)
                         [i := (getMedications fl s ! i)
                            \<lparr>currentSupply := number_minus (currentSupply (getMedications fl s ! i)) 1\<rparr>]
                  else getMedications fl s)"
proof -
  let ?P = "\<lambda>med. med_id med = mid"
  let ?L = "getMedications fl s"
  show ?thesis
  proof (cases "findIndex ?P ?L")
    case None
    then have "find ?P ?L = None"
      by (simp add: find_findIndex)
    then have "recordDose fl r mid tk t s = (Inr (), dose_written fl r mid tk t s)"
      using setd by (simp add: recordDose_no_decrement)
    then show ?thesis
      using None by simp
  next
    case (Some i)
    then have f: "find ?P ?L = Some (?L ! i)"
      by (simp add: find_findIndex)
    show ?thesis
    proof (cases "tk \<and> 0 < currentSupply (?L ! i)")
      case True
      then have tk: "tk = True" and pos: "0 < currentSupply (?L ! i)"
        by simp_all
      from recordDose_decrement [OF setd setm Some pos, of r t] show ?thesis
        using get Some pos by (simp add: tk getMedications_written)
    next
      case False
      then have "recordDose fl r mid tk t s = (Inr (), dose_written fl r mid tk t s)"
        using setd f by (intro recordDose_no_decrement) auto
      then show ?thesis
        using Some False by auto
    qed
  qed
qed

lemma kept_iff_not_within:
  assumes "dx \<noteq> InvalidDate" and "a \<noteq> InvalidDate" and "b \<noteq> InvalidDate"
  shows "(date_lt dx a \<or> date_gt dx b) = (\<not> date_within dx a b)"
  using assms by (cases dx; cases a; cases b) (auto simp: date_gt_def)

lemma clearDataForDateRange_ok:
  assumes "setItem_fault fl MEDICATIONS_KEY = None"
    and "setItem_fault fl DOSE_HISTORY_KEY = None"
  shows "clearDataForDateRange fl parse a b st
         = (Inr (),
            st(MEDICATIONS_KEY \<mapsto>
                 stringify_Medications
                   (filter (\<lambda>med. date_lt (new_Date_string parse (startDate med)) a
                                   \<or> date_gt (new_Date_string parse (startDate med)) b)
                      (getMedications fl st)),
               DOSE_HISTORY_KEY \<mapsto>
                 stringify_DoseHistory
                   (filter (\<lambda>dose. date_lt (new_Date_string parse (timestamp dose)) a
                                    \<or> date_gt (new_Date_string parse (timestamp dose)) b)
                      (getDoseHistory fl st))))"
  using assms by (simp add: clearDataForDateRange_def setItem_def Let_def)

lemma recordDose_dose_write_fails:
  "setItem_fault fl DOSE_HISTORY_KEY = Some e \<Longrightarrow> recordDose fl rid mid tk ts st = (Inl e, st)"
  by (simp add: recordDose_def setItem_def Let_def)

lemma recordDose_medication_write_fails:
  assumes setd: "setItem_fault fl DOSE_HISTORY_KEY = None"
    and setm: "setItem_fault fl MEDICATIONS_KEY = Some e"
    and f: "find (\<lambda>med. med_id med = mid) (getMedications fl st) = Some x"
    and pos: "0 < currentSupply x"
  shows "recordDose fl rid mid True ts st = (Inl e, dose_written fl rid mid True ts st)"
proof -
  let ?x' = "x\<lparr>currentSupply := number_minus (currentSupply x) 1\<rparr>"
  let ?st1 = "dose_written fl rid mid True ts st"
  from f obtain i where i: "findIndex (\<lambda>med. med_id med = mid) (getMedications fl st) = Some i"
    and x: "getMedications fl st ! i = x"
    by (auto simp: find_findIndex split: option.splits)
  have "med_id ?x' = mid"
    using findIndex_Some [OF i] x by auto
  then have "findIndex (\<lambda>med. med_id med = med_id ?x') (getMedications fl ?st1) = Some i"
    using i by simp
  then have "updateMedication fl ?x' ?st1 = (Inl e, ?st1)"
    using setm by (simp add: updateMedication_match setItem_def)
  then show ?thesis
    using f pos by (simp add: recordDose_unfold [OF setd])
qed

lemma isoDate_examples:
  "isoDate ''2024-01-01'' = Some 1704067200000"
  "isoDate ''2024-01-15'' = Some 1705276800000"
  "isoDate ''2024-01-30'' = Some 1706572800000"
  "isoDate ''2024-01-31'' = Some 1706659200000"
  "isoDate ''2024-02-01'' = Some 1706745600000"
  "isoDate ''2023-12-31'' = Some 1703980800000"
  by (simp_all add: isoDate_def is_digit_def parseInt_def digit_value_def days_in_month_def
        days_from_civil_def msPerDay_def)

lemma new_Date_string_examples:
  "new_Date_string isoDate ''2024-01-01'' = TimeValue 1704067200000"
  "new_Date_string isoDate ''2024-01-15'' = TimeValue 1705276800000"
  "new_Date_string isoDate ''2024-01-30'' = TimeValue 1706572800000"
  "new_Date_string isoDate ''2024-01-31'' = TimeValue 1706659200000"
  "new_Date_string isoDate ''2024-02-01'' = TimeValue 1706745600000"
  "new_Date_string isoDate ''2023-12-31'' = TimeValue 1703980800000"
  by (simp_all add: new_Date_string_def isoDate_examples TimeClip_def maxTime_def)








section \<open>The properties\<close>




text \<open>
  C2: with a working store, a taken dose of a medication whose supply is 1 leaves it stored
  with supply 0, and a second taken dose leaves the supply at 0. A call of \<open>recordDose\<close>
  changes no stored medication but the first one with the given identifier, and that one
  only when the dose is taken and the supply is positive: then the supply becomes the
  double nearest to the supply less 1. For a supply that is a whole number from 1 to 2^53
  that is the supply less exactly 1, again a whole number that is not negative. In every
  reachable state the supply of every stored medication is such a whole number.
\<close>

theorem recordDose_supply_never_negative:
  assumes "getItem_fault fl MEDICATIONS_KEY = None"
    and "setItem_fault fl MEDICATIONS_KEY = None"
    and "setItem_fault fl DOSE_HISTORY_KEY = None"
  shows "(find (\<lambda>med. med_id med = mid) (getMedications fl st) = Some x \<and> currentSupply x = 1
          \<longrightarrow> fst (recordDose fl rid mid True ts st) = Inr ()
            \<and> find (\<lambda>med. med_id med = mid)
                (getMedications fl (snd (recordDose fl rid mid True ts st)))
              = Some (x\<lparr>currentSupply := 0\<rparr>)
            \<and> fst (recordDose fl rid2 mid True ts2 (snd (recordDose fl rid mid True ts st))) = Inr ()
            \<and> find (\<lambda>med. med_id med = mid)
                (getMedications fl
                  (snd (recordDose fl rid2 mid True ts2 (snd (recordDose fl rid mid True ts st)))))
              = Some (x\<lparr>currentSupply := 0\<rparr>))
         \<and> length (getMedications fl (snd (recordDose fl rid mid tk ts st)))
           = length (getMedications fl st)
         \<and> (\<forall>j < length (getMedications fl st).
              getMedications fl (snd (recordDose fl rid mid tk ts st)) ! j
              = (if tk \<and> findIndex (\<lambda>med. med_id med = mid) (getMedications fl st) = Some j
                    \<and> 0 < currentSupply (getMedications fl st ! j)
                 then (getMedications fl st ! j)
                        \<lparr>currentSupply := number_minus (currentSupply (getMedications fl st ! j)) 1\<rparr>
                 else getMedications fl st ! j))
         \<and> (whole_count c \<and> 0 < c \<longrightarrow> number_minus c 1 = c - 1 \<and> whole_count (c - 1))
         \<and> (whole_count c \<longrightarrow> 0 \<le> c)
         \<and> (reachable st0 \<longrightarrow> (\<forall>y \<in> set (getMedications fl0 st0). whole_count (currentSupply y)))"
proof -
  let ?P = "\<lambda>med. med_id med = mid"
  have step: "getMedications fl (snd (recordDose fl r mid tk' t s))
              = (case findIndex ?P (getMedications fl s) of
                   None \<Rightarrow> getMedications fl s
                 | Some i \<Rightarrow>
                     if tk' \<and> 0 < currentSupply (getMedications fl s ! i)
                     then (getMedications fl s)
                            [i := (getMedications fl s ! i)
                               \<lparr>currentSupply :=
                                  number_minus (currentSupply (getMedications fl s ! i)) 1\<rparr>]
                     else getMedications fl s)"
    and ok: "fst (recordDose fl r mid tk' t s) = Inr ()" for r tk' t s
    using recordDose_effect [OF assms, of r mid tk' t s] by simp_all
  have A: "fst (recordDose fl rid mid True ts st) = Inr ()
            \<and> find ?P (getMedications fl (snd (recordDose fl rid mid True ts st)))
              = Some (x\<lparr>currentSupply := 0\<rparr>)
            \<and> fst (recordDose fl rid2 mid True ts2 (snd (recordDose fl rid mid True ts st))) = Inr ()
            \<and> find ?P
                (getMedications fl
                  (snd (recordDose fl rid2 mid True ts2 (snd (recordDose fl rid mid True ts st)))))
              = Some (x\<lparr>currentSupply := 0\<rparr>)"
    if f: "find ?P (getMedications fl st) = Some x" and one: "currentSupply x = 1"
  proof -
    let ?L = "getMedications fl st"
    let ?st1 = "snd (recordDose fl rid mid True ts st)"
    from f obtain i where i: "findIndex ?P ?L = Some i" and x: "?L ! i = x"
      by (auto simp: find_findIndex split: option.splits)
    have il: "i < length ?L" and px: "med_id x = mid"
      using findIndex_Some [OF i] x by auto
    have L1: "getMedications fl ?st1 = ?L[i := x\<lparr>currentSupply := 0\<rparr>]"
      using i x one by (simp add: step number_minus_one_one)
    have i1: "findIndex ?P (getMedications fl ?st1) = Some i"
      unfolding L1 using i px by (intro findIndex_update) simp_all
    have n1: "getMedications fl ?st1 ! i = x\<lparr>currentSupply := 0\<rparr>"
      using il by (simp add: L1)
    have f1: "find ?P (getMedications fl ?st1) = Some (x\<lparr>currentSupply := 0\<rparr>)"
      by (simp add: find_findIndex i1 n1)
    have L2: "getMedications fl (snd (recordDose fl rid2 mid True ts2 ?st1)) = getMedications fl ?st1"
      using step [of rid2 True ts2 ?st1] by (simp add: i1 n1)
    show ?thesis
      by (simp add: ok L2 f1)
  qed
  have C: "length (getMedications fl (snd (recordDose fl rid mid tk ts st)))
           = length (getMedications fl st)
         \<and> (\<forall>j < length (getMedications fl st).
              getMedications fl (snd (recordDose fl rid mid tk ts st)) ! j
              = (if tk \<and> findIndex ?P (getMedications fl st) = Some j
                    \<and> 0 < currentSupply (getMedications fl st ! j)
                 then (getMedications fl st ! j)
                        \<lparr>currentSupply := number_minus (currentSupply (getMedications fl st ! j)) 1\<rparr>
                 else getMedications fl st ! j))"
  proof (cases "findIndex ?P (getMedications fl st)")
    case None
    then show ?thesis
      by (simp add: step)
  next
    case (Some i)
    then have "i < length (getMedications fl st)"
      by (simp add: findIndex_Some)
    then show ?thesis
      using Some by (auto simp: step nth_list_update)
  qed
  have D: "whole_count c \<and> 0 < c \<longrightarrow> number_minus c 1 = c - 1 \<and> whole_count (c - 1)"
    by (simp add: whole_count_decrement)
  have E: "whole_count c \<longrightarrow> 0 \<le> c"
    by (simp add: whole_count_def)
  have B: "\<forall>y \<in> set (getMedications fl0 st0). whole_count (currentSupply y)" if "reachable st0"
    using reachable_supplies_ok [OF that] by (simp add: supplies_ok_def)
  from A B C D E show ?thesis
    by blast
qed

theorem recordDose_supply_never_negative_witness:
  "currentSupply aspirin = 1
   \<and> find (\<lambda>med. med_id med = ''m1'') (getMedications no_faults example_store) = Some aspirin
   \<and> find (\<lambda>med. med_id med = ''m1'')
       (getMedications no_faults
          (snd (recordDose no_faults ''r1'' ''m1'' True ''2024-01-02'' example_store)))
     = Some (aspirin\<lparr>currentSupply := 0\<rparr>)
   \<and> find (\<lambda>med. med_id med = ''m1'')
       (getMedications no_faults
          (snd (recordDose no_faults ''r2'' ''m1'' True ''2024-01-03''
             (snd (recordDose no_faults ''r1'' ''m1'' True ''2024-01-02'' example_store)))))
     = Some (aspirin\<lparr>currentSupply := 0\<rparr>)
   \<and> whole_count 1 \<and> number_minus 1 1 = 0 \<and> whole_count 0
   \<and> reachable (snd (addMedication no_faults aspirin Map.empty))
   \<and> list_all (\<lambda>y. whole_count (currentSupply y))
       (getMedications no_faults (snd (addMedication no_faults aspirin Map.empty)))"
proof -
  have h: "getItem_fault no_faults MEDICATIONS_KEY = None"
    "setItem_fault no_faults MEDICATIONS_KEY = None"
    "setItem_fault no_faults DOSE_HISTORY_KEY = None"
    by (simp_all add: no_faults_simps)
  have f: "find (\<lambda>med. med_id med = ''m1'') (getMedications no_faults example_store) = Some aspirin"
    and one: "currentSupply aspirin = 1"
    by (simp_all add: example_store_reads aspirin_def)
  have w: "whole_count 1" "(0 :: rat) < 1"
    by (simp_all add: whole_count_examples)
  have r: "reachable (snd (addMedication no_faults aspirin Map.empty))"
    by (rule r_add [OF r_initial]) (simp add: aspirin_def whole_count_examples)
  show ?thesis
    using recordDose_supply_never_negative [OF h, where mid = "''m1''" and st = example_store
        and x = aspirin and rid = "''r1''" and ts = "''2024-01-02''" and ?rid2.0 = "''r2''"
        and ?ts2.0 = "''2024-01-03''" and tk = True and c = 1
        and ?st0.0 = "snd (addMedication no_faults aspirin Map.empty)" and ?fl0.0 = no_faults]
      f one r w
    by (simp add: list_all_iff)
qed

theorem recordDose_supply_counterexample:
  "round_double 9007199254740994 = 9007199254740994
   \<and> map currentSupply
       (getMedications no_faults
          (snd (recordDose no_faults ''r1'' ''m1'' True ''2024-01-02''
             (snd (addMedication no_faults (aspirin\<lparr>currentSupply := 9007199254740994\<rparr>) Map.empty)))))
     = [9007199254740992]
   \<and> round_double (1 / 2) = 1 / 2
   \<and> map currentSupply
       (getMedications no_faults
          (snd (recordDose no_faults ''r1'' ''m1'' True ''2024-01-02''
             (snd (addMedication no_faults (aspirin\<lparr>currentSupply := 1 / 2\<rparr>) Map.empty)))))
     = [- (1 / 2)]"
proof -
  have h: "getItem_fault no_faults MEDICATIONS_KEY = None"
    "setItem_fault no_faults MEDICATIONS_KEY = None"
    "setItem_fault no_faults DOSE_HISTORY_KEY = None"
    by (simp_all add: no_faults_simps)
  have e: "getMedications no_faults Map.empty = []"
    by (simp add: getMedications_absent)
  have a: "getMedications no_faults (snd (addMedication no_faults m Map.empty)) = [m]" for m
    by (simp add: addMedication_ok [OF h(2)] getMedications_written e h)
  have i: "med_id aspirin = ''m1''"
    by (simp add: aspirin_def)
  show ?thesis
    using recordDose_effect [OF h, where r = "''r1''" and mid = "''m1''" and tk = True
        and t = "''2024-01-02''"
        and s = "snd (addMedication no_faults (aspirin\<lparr>currentSupply := 9007199254740994\<rparr>) Map.empty)"]
      recordDose_effect [OF h, where r = "''r1''" and mid = "''m1''" and tk = True
        and t = "''2024-01-02''"
        and s = "snd (addMedication no_faults (aspirin\<lparr>currentSupply := 1 / 2\<rparr>) Map.empty)"]
    by (simp add: a i number_minus_examples)
qed

text \<open>
  C3: \<open>clearDataForDateRange\<close> removes the medications whose start date falls within the
  range, both ends included, and the history entries whose timestamp does, and keeps all
  others, in their order. The store works, the ends of the range are valid dates, and so
  are the stored dates.
\<close>

theorem clearDataForDateRange_removes_range:
  assumes "getItem_fault fl MEDICATIONS_KEY = None"
    and "getItem_fault fl DOSE_HISTORY_KEY = None"
    and "setItem_fault fl MEDICATIONS_KEY = None"
    and "setItem_fault fl DOSE_HISTORY_KEY = None"
    and "a \<noteq> InvalidDate" and "b \<noteq> InvalidDate"
    and "\<forall>x \<in> set (getMedications fl st). new_Date_string parse (startDate x) \<noteq> InvalidDate"
    and "\<forall>h \<in> set (getDoseHistory fl st). new_Date_string parse (timestamp h) \<noteq> InvalidDate"
  shows "fst (clearDataForDateRange fl parse a b st) = Inr ()
         \<and> getMedications fl (snd (clearDataForDateRange fl parse a b st))
           = filter (\<lambda>x. \<not> date_within (new_Date_string parse (startDate x)) a b)
               (getMedications fl st)
         \<and> getDoseHistory fl (snd (clearDataForDateRange fl parse a b st))
           = filter (\<lambda>h. \<not> date_within (new_Date_string parse (timestamp h)) a b)
               (getDoseHistory fl st)"
proof -
  have m: "filter (\<lambda>med. date_lt (new_Date_string parse (startDate med)) a
                        \<or> date_gt (new_Date_string parse (startDate med)) b)
             (getMedications fl st)
           = filter (\<lambda>x. \<not> date_within (new_Date_string parse (startDate x)) a b)
               (getMedications fl st)"
    using assms(5-7) by (intro filter_cong) (simp_all add: kept_iff_not_within)
  have h: "filter (\<lambda>dose. date_lt (new_Date_string parse (timestamp dose)) a
                         \<or> date_gt (new_Date_string parse (timestamp dose)) b)
             (getDoseHistory fl st)
           = filter (\<lambda>h. \<not> date_within (new_Date_string parse (timestamp h)) a b)
               (getDoseHistory fl st)"
    using assms(5,6,8) by (intro filter_cong) (simp_all add: kept_iff_not_within)
  have gm: "getMedications fl (s(MEDICATIONS_KEY \<mapsto> stringify_Medications ms, DOSE_HISTORY_KEY \<mapsto> v))
            = ms" for s ms v
    using assms(1) by (simp add: getMedications_dose_written getMedications_written)
  have gh: "getDoseHistory fl (s(DOSE_HISTORY_KEY \<mapsto> stringify_DoseHistory ds)) = ds" for s ds
    using assms(2) by (simp add: getDoseHistory_written)
  show ?thesis
    unfolding clearDataForDateRange_ok [OF assms(3,4)] m h
    by (simp only: fst_conv snd_conv gm gh simp_thms)
qed

theorem clearDataForDateRange_removes_range_witness:
  "getMedications no_faults
     (snd (clearDataForDateRange no_faults isoDate (new_Date_string isoDate ''2024-01-01'')
             (new_Date_string isoDate ''2024-01-31'') example_store))
   = [ibuprofen]
   \<and> getDoseHistory no_faults
       (snd (clearDataForDateRange no_faults isoDate (new_Date_string isoDate ''2024-01-01'')
               (new_Date_string isoDate ''2024-01-31'') example_store))
     = [\<lparr>dose_id = ''d1'', medicationId = ''m2'', timestamp = ''2024-02-01'', taken = False\<rparr>]
   \<and> getMedications no_faults
       (snd (clearDataForDateRange no_faults isoDate (new_Date_string isoDate ''2024-01-15'')
               (new_Date_string isoDate ''2024-02-01'') example_store))
     = [aspirin]
   \<and> getDoseHistory no_faults
       (snd (clearDataForDateRange no_faults isoDate (new_Date_string isoDate ''2024-01-15'')
               (new_Date_string isoDate ''2024-02-01'') example_store))
     = []"
proof -
  have f: "getItem_fault no_faults MEDICATIONS_KEY = None"
    "getItem_fault no_faults DOSE_HISTORY_KEY = None"
    "setItem_fault no_faults MEDICATIONS_KEY = None"
    "setItem_fault no_faults DOSE_HISTORY_KEY = None"
    by (simp_all add: no_faults_simps)
  have v: "new_Date_string isoDate ''2024-01-01'' \<noteq> InvalidDate"
    "new_Date_string isoDate ''2024-01-31'' \<noteq> InvalidDate"
    "new_Date_string isoDate ''2024-01-15'' \<noteq> InvalidDate"
    "new_Date_string isoDate ''2024-02-01'' \<noteq> InvalidDate"
    by (simp_all add: new_Date_string_examples)
  have sm: "\<forall>x \<in> set (getMedications no_faults example_store).
              new_Date_string isoDate (startDate x) \<noteq> InvalidDate"
    by (simp add: example_store_reads aspirin_def ibuprofen_def new_Date_string_examples)
  have sh: "\<forall>h \<in> set (getDoseHistory no_faults example_store).
              new_Date_string isoDate (timestamp h) \<noteq> InvalidDate"
    by (simp add: example_store_reads new_Date_string_examples)
  have sd: "startDate aspirin = ''2024-01-01''" "startDate ibuprofen = ''2024-02-01''"
    by (simp_all add: aspirin_def ibuprofen_def)
  show ?thesis
    using clearDataForDateRange_removes_range [OF f v(1) v(2) sm sh]
      clearDataForDateRange_removes_range [OF f v(3) v(4) sm sh]
    by (simp add: example_store_reads new_Date_string_examples sd)
qed





text \<open>
  C6: \<open>addMedication\<close> followed by \<open>getMedications\<close> returns the list that was stored with
  one more entry, at the end, equal to the medication added in every field, the absent
  \<open>lastRefillDate\<close> included. The store's read and write succeed.
\<close>

theorem addMedication_appends_one:
  assumes "getItem_fault fl MEDICATIONS_KEY = None"
    and "setItem_fault fl MEDICATIONS_KEY = None"
  shows "fst (addMedication fl m st) = Inr ()
         \<and> getMedications fl (snd (addMedication fl m st)) = getMedications fl st @ [m]
         \<and> length (getMedications fl (snd (addMedication fl m st)))
             = Suc (length (getMedications fl st))
         \<and> last (getMedications fl (snd (addMedication fl m st))) = m
         \<and> lastRefillDate (last (getMedications fl (snd (addMedication fl m st))))
             = lastRefillDate m
         \<and> Medication_of_json (json_of_Medication m) = Some m"
  using assms(1) by (simp add: addMedication_ok [OF assms(2)] getMedications_written Medication_roundtrip)

theorem addMedication_appends_one_witness:
  "getMedications no_faults (snd (addMedication no_faults aspirin Map.empty)) = [aspirin]
   \<and> getMedications no_faults (snd (addMedication no_faults aspirin example_store))
     = [aspirin, ibuprofen, aspirin]
   \<and> lastRefillDate (last (getMedications no_faults (snd (addMedication no_faults aspirin example_store))))
     = None
   \<and> last (getMedications no_faults (snd (addMedication no_faults ibuprofen example_store)))
     = ibuprofen"
proof -
  have g: "getItem_fault no_faults MEDICATIONS_KEY = None"
    and s: "setItem_fault no_faults MEDICATIONS_KEY = None"
    by (simp_all add: no_faults_simps)
  have e: "getMedications no_faults Map.empty = []"
    by (simp add: getMedications_absent)
  have l: "lastRefillDate aspirin = None"
    by (simp add: aspirin_def)
  show ?thesis
    using addMedication_appends_one [OF g s, of aspirin Map.empty]
      addMedication_appends_one [OF g s, of aspirin example_store]
      addMedication_appends_one [OF g s, of ibuprofen example_store]
    by (simp add: e l example_store_reads)
qed

text \<open>
  C7: \<open>getMedications\<close> and \<open>getDoseHistory\<close> return a list in every case, the empty one
  when nothing is stored under their key or when the store's read fails. Every operation
  that writes returns the store's error when a write (or removal) that it makes fails.
\<close>

theorem reads_degrade_writes_propagate:
  "(st MEDICATIONS_KEY = None \<or> getItem_fault fl MEDICATIONS_KEY \<noteq> None
      \<longrightarrow> getMedications fl st = [])
   \<and> (st DOSE_HISTORY_KEY = None \<or> getItem_fault fl DOSE_HISTORY_KEY \<noteq> None
      \<longrightarrow> getDoseHistory fl st = [])
   \<and> (setItem_fault fl MEDICATIONS_KEY = Some e
      \<longrightarrow> addMedication fl m st = (Inl e, st)
        \<and> deleteMedication fl i st = (Inl e, st)
        \<and> clearDataForDateRange fl parse a b st = (Inl e, st)
        \<and> clearOldData fl parse b st = (Inl e, st)
        \<and> ((\<exists>x \<in> set (getMedications fl st). med_id x = med_id m)
             \<longrightarrow> updateMedication fl m st = (Inl e, st))
        \<and> (setItem_fault fl DOSE_HISTORY_KEY = None
             \<and> (\<exists>x. find (\<lambda>med. med_id med = mid) (getMedications fl st) = Some x
                     \<and> 0 < currentSupply x)
             \<longrightarrow> fst (recordDose fl rid mid True ts st) = Inl e))
   \<and> (setItem_fault fl DOSE_HISTORY_KEY = Some e
      \<longrightarrow> recordDose fl rid mid tk ts st = (Inl e, st)
        \<and> (setItem_fault fl MEDICATIONS_KEY = None
             \<longrightarrow> fst (clearDataForDateRange fl parse a b st) = Inl e
               \<and> fst (clearOldData fl parse b st) = Inl e))
   \<and> (removeItem_fault fl MEDICATIONS_KEY = Some e \<longrightarrow> clearAllData fl st = (Inl e, st))
   \<and> (removeItem_fault fl MEDICATIONS_KEY = None \<and> removeItem_fault fl DOSE_HISTORY_KEY = Some e
      \<longrightarrow> fst (clearAllData fl st) = Inl e)"
proof (intro conjI impI)
  assume "st MEDICATIONS_KEY = None \<or> getItem_fault fl MEDICATIONS_KEY \<noteq> None"
  then show "getMedications fl st = []"
    by (auto simp: getMedications_absent getMedications_faulty)
next
  assume "st DOSE_HISTORY_KEY = None \<or> getItem_fault fl DOSE_HISTORY_KEY \<noteq> None"
  then show "getDoseHistory fl st = []"
    by (auto simp: getDoseHistory_absent getDoseHistory_faulty)
next
  assume w: "setItem_fault fl MEDICATIONS_KEY = Some e"
  show "addMedication fl m st = (Inl e, st)"
    using w by (simp add: addMedication_def setItem_def)
  show "deleteMedication fl i st = (Inl e, st)"
    using w by (simp add: deleteMedication_def setItem_def)
  show "clearDataForDateRange fl parse a b st = (Inl e, st)"
    using w by (simp add: clearDataForDateRange_def setItem_def Let_def)
  show "clearOldData fl parse b st = (Inl e, st)"
    using w by (simp add: clearOldData_def setItem_def Let_def)
  {
    assume "\<exists>x \<in> set (getMedications fl st). med_id x = med_id m"
    then have "findIndex (\<lambda>med. med_id med = med_id m) (getMedications fl st) \<noteq> None"
      by (simp add: findIndex_None_iff)
    then show "updateMedication fl m st = (Inl e, st)"
      using w by (auto simp: updateMedication_def setItem_def)
  }
  {
    assume "setItem_fault fl DOSE_HISTORY_KEY = None
             \<and> (\<exists>x. find (\<lambda>med. med_id med = mid) (getMedications fl st) = Some x
                     \<and> 0 < currentSupply x)"
    then show "fst (recordDose fl rid mid True ts st) = Inl e"
      using w by (auto simp: recordDose_medication_write_fails)
  }
next
  assume w: "setItem_fault fl DOSE_HISTORY_KEY = Some e"
  show "recordDose fl rid mid tk ts st = (Inl e, st)"
    using w by (rule recordDose_dose_write_fails)
  {
    assume "setItem_fault fl MEDICATIONS_KEY = None"
    then show "fst (clearDataForDateRange fl parse a b st) = Inl e"
      and "fst (clearOldData fl parse b st) = Inl e"
      using w by (simp_all add: clearDataForDateRange_def clearOldData_def setItem_def Let_def)
  }
next
  assume "removeItem_fault fl MEDICATIONS_KEY = Some e"
  then show "clearAllData fl st = (Inl e, st)"
    by (simp add: clearAllData_def removeItem_def)
next
  assume "removeItem_fault fl MEDICATIONS_KEY = None \<and> removeItem_fault fl DOSE_HISTORY_KEY = Some e"
  then show "fst (clearAllData fl st) = Inl e"
    by (simp add: clearAllData_def removeItem_def)
qed

theorem reads_degrade_writes_propagate_witness:
  "getMedications no_faults Map.empty = []
   \<and> getDoseHistory no_faults Map.empty = []
   \<and> getMedications failing_reads example_store = []
   \<and> getDoseHistory failing_reads example_store = []
   \<and> addMedication failing_writes ibuprofen example_store = (Inl (Error ''write''), example_store)
   \<and> updateMedication failing_writes (aspirin\<lparr>name := ''Aspirin forte''\<rparr>) example_store
     = (Inl (Error ''write''), example_store)
   \<and> deleteMedication failing_writes ''m1'' example_store = (Inl (Error ''write''), example_store)
   \<and> recordDose failing_writes ''r1'' ''m1'' True ''2024-01-02'' example_store
     = (Inl (Error ''write''), example_store)
   \<and> clearAllData failing_writes example_store = (Inl (Error ''write''), example_store)
   \<and> clearDataForDateRange failing_writes isoDate (TimeValue 0) (TimeValue 1) example_store
     = (Inl (Error ''write''), example_store)
   \<and> clearOldData failing_writes isoDate (TimeValue 1) example_store
     = (Inl (Error ''write''), example_store)"
proof -
  have r: "getMedications failing_writes example_store = [aspirin, ibuprofen]"
    by (rule getMedications_stored) (simp_all add: failing_writes_def example_store_def keys_distinct)
  have ex: "\<exists>x \<in> set (getMedications failing_writes example_store).
              med_id x = med_id (aspirin\<lparr>name := ''Aspirin forte''\<rparr>)"
    by (simp add: r)
  show ?thesis
    using reads_degrade_writes_propagate [where st = Map.empty and fl = no_faults]
      reads_degrade_writes_propagate [where st = example_store and fl = failing_reads]
      reads_degrade_writes_propagate [where st = example_store and fl = failing_writes
        and e = "Error ''write''" and m = ibuprofen and i = "''m1''" and parse = isoDate
        and a = "TimeValue 0" and b = "TimeValue 1" and rid = "''r1''" and mid = "''m1''"
        and tk = True and ts = "''2024-01-02''"]
      reads_degrade_writes_propagate [where st = example_store and fl = failing_writes
        and e = "Error ''write''" and m = "aspirin\<lparr>name := ''Aspirin forte''\<rparr>"] ex
    by (simp add: failing_reads_def failing_writes_def)
qed

text \<open>
  C8: when no stored medication has the identifier of \<open>m\<close>, \<open>updateMedication\<close> succeeds
  and leaves the store as it is: nothing is written, so not even a store whose writes fail
  makes it fail. When one has, and the write succeeds, the first such entry becomes \<open>m\<close>
  and every other entry keeps its value and its position.
\<close>

theorem updateMedication_frame:
  "((\<forall>x \<in> set (getMedications fl st). med_id x \<noteq> med_id m)
      \<longrightarrow> updateMedication fl m st = (Inr (), st))
   \<and> ((\<exists>x \<in> set (getMedications fl st). med_id x = med_id m)
        \<and> setItem_fault fl MEDICATIONS_KEY = None
      \<longrightarrow> (\<exists>i < length (getMedications fl st).
             med_id (getMedications fl st ! i) = med_id m
             \<and> (\<forall>j < i. med_id (getMedications fl st ! j) \<noteq> med_id m)
             \<and> fst (updateMedication fl m st) = Inr ()
             \<and> getMedications fl (snd (updateMedication fl m st)) = (getMedications fl st)[i := m]
             \<and> length (getMedications fl (snd (updateMedication fl m st)))
                 = length (getMedications fl st)
             \<and> getMedications fl (snd (updateMedication fl m st)) ! i = m
             \<and> (\<forall>j < length (getMedications fl st). j \<noteq> i \<longrightarrow>
                   getMedications fl (snd (updateMedication fl m st)) ! j
                   = getMedications fl st ! j)
             \<and> (\<forall>k. k \<noteq> MEDICATIONS_KEY \<longrightarrow> snd (updateMedication fl m st) k = st k)))"
proof (intro conjI impI)
  assume "\<forall>x \<in> set (getMedications fl st). med_id x \<noteq> med_id m"
  then show "updateMedication fl m st = (Inr (), st)"
    by (rule updateMedication_no_match)
next
  assume a: "(\<exists>x \<in> set (getMedications fl st). med_id x = med_id m)
             \<and> setItem_fault fl MEDICATIONS_KEY = None"
  then obtain i where i: "i < length (getMedications fl st)"
    "med_id (getMedications fl st ! i) = med_id m"
    "\<forall>j < i. med_id (getMedications fl st ! j) \<noteq> med_id m"
    "updateMedication fl m st
     = (Inr (), st(MEDICATIONS_KEY \<mapsto> stringify_Medications ((getMedications fl st)[i := m])))"
    "getMedications fl (snd (updateMedication fl m st)) = (getMedications fl st)[i := m]"
    using updateMedication_replaces_first [of fl st m] by blast
  show "\<exists>i < length (getMedications fl st).
             med_id (getMedications fl st ! i) = med_id m
             \<and> (\<forall>j < i. med_id (getMedications fl st ! j) \<noteq> med_id m)
             \<and> fst (updateMedication fl m st) = Inr ()
             \<and> getMedications fl (snd (updateMedication fl m st)) = (getMedications fl st)[i := m]
             \<and> length (getMedications fl (snd (updateMedication fl m st)))
                 = length (getMedications fl st)
             \<and> getMedications fl (snd (updateMedication fl m st)) ! i = m
             \<and> (\<forall>j < length (getMedications fl st). j \<noteq> i \<longrightarrow>
                   getMedications fl (snd (updateMedication fl m st)) ! j
                   = getMedications fl st ! j)
             \<and> (\<forall>k. k \<noteq> MEDICATIONS_KEY \<longrightarrow> snd (updateMedication fl m st) k = st k)"
  proof (intro exI [of _ i] conjI)
    show "\<forall>k. k \<noteq> MEDICATIONS_KEY \<longrightarrow> snd (updateMedication fl m st) k = st k"
      by (simp add: i(4))
  qed (use i in simp_all)
qed

theorem updateMedication_frame_witness:
  "updateMedication failing_writes (aspirin\<lparr>med_id := ''m9''\<rparr>) example_store
   = (Inr (), example_store)
   \<and> fst (updateMedication no_faults (ibuprofen\<lparr>med_id := ''m1''\<rparr>) example_store) = Inr ()
   \<and> getMedications no_faults
       (snd (updateMedication no_faults (ibuprofen\<lparr>med_id := ''m1''\<rparr>) example_store))
     = [ibuprofen\<lparr>med_id := ''m1''\<rparr>, ibuprofen]"
proof -
  let ?u = "ibuprofen\<lparr>med_id := ''m1''\<rparr>"
  have r: "getMedications failing_writes example_store = [aspirin, ibuprofen]"
    by (rule getMedications_stored) (simp_all add: failing_writes_def example_store_def keys_distinct)
  have 1: "\<forall>x \<in> set (getMedications failing_writes example_store).
             med_id x \<noteq> med_id (aspirin\<lparr>med_id := ''m9''\<rparr>)"
    by (simp add: r aspirin_def ibuprofen_def)
  have 2: "(\<exists>x \<in> set (getMedications no_faults example_store). med_id x = med_id ?u)
           \<and> setItem_fault no_faults MEDICATIONS_KEY = None"
    by (simp add: example_store_reads aspirin_def no_faults_simps)
  from updateMedication_frame [of no_faults example_store ?u] 2
  obtain i where i: "i < length (getMedications no_faults example_store)"
    "med_id (getMedications no_faults example_store ! i) = med_id ?u"
    "fst (updateMedication no_faults ?u example_store) = Inr ()"
    "getMedications no_faults (snd (updateMedication no_faults ?u example_store))
     = (getMedications no_faults example_store)[i := ?u]"
    by blast
  have "i = 0"
    using i(1,2) by (auto simp: example_store_reads less_Suc_eq ibuprofen_def)
  then show ?thesis
    using updateMedication_frame [of failing_writes example_store "aspirin\<lparr>med_id := ''m9''\<rparr>"] 1 i
    by (simp add: example_store_reads)
qed



text \<open>
  C10: when \<open>recordDose\<close> is called with an identifier that no stored medication has, or
  that of a medication whose supply is zero (or less), or with \<open>taken\<close> false, and the write
  of the history succeeds, then the new entry, with the given identifier, timestamp and
  flag, is appended to the history and stored, and the medications are left as they are.
\<close>

theorem recordDose_without_decrement:
  assumes "setItem_fault fl DOSE_HISTORY_KEY = None"
    and "find (\<lambda>med. med_id med = mid) (getMedications fl st) = None
         \<or> (\<exists>x. find (\<lambda>med. med_id med = mid) (getMedications fl st) = Some x
                 \<and> currentSupply x \<le> 0)
         \<or> \<not> tk"
  shows "recordDose fl rid mid tk ts st
         = (Inr (),
            st(DOSE_HISTORY_KEY \<mapsto>
                 stringify_DoseHistory
                   (getDoseHistory fl st
                    @ [\<lparr>dose_id = rid, medicationId = mid, timestamp = ts, taken = tk\<rparr>])))
         \<and> snd (recordDose fl rid mid tk ts st) MEDICATIONS_KEY = st MEDICATIONS_KEY
         \<and> getMedications fl' (snd (recordDose fl rid mid tk ts st)) = getMedications fl' st
         \<and> (getItem_fault fl DOSE_HISTORY_KEY = None \<longrightarrow>
              getDoseHistory fl (snd (recordDose fl rid mid tk ts st))
              = getDoseHistory fl st
                @ [\<lparr>dose_id = rid, medicationId = mid, timestamp = ts, taken = tk\<rparr>])"
proof -
  have r: "recordDose fl rid mid tk ts st = (Inr (), dose_written fl rid mid tk ts st)"
    using assms by (rule recordDose_no_decrement)
  have "dose_written fl rid mid tk ts st MEDICATIONS_KEY = st MEDICATIONS_KEY"
    using keys_distinct by (simp add: dose_written_def)
  then show ?thesis
    by (simp add: r getDoseHistory_dose_written) (simp add: dose_written_def)
qed

theorem recordDose_without_decrement_witness:
  "getMedications no_faults (snd (recordDose no_faults ''r1'' ''m9'' True ''2024-03-01'' example_store))
   = [aspirin, ibuprofen]
   \<and> getMedications no_faults (snd (recordDose no_faults ''r1'' ''m2'' True ''2024-03-01'' example_store))
     = [aspirin, ibuprofen]
   \<and> getMedications no_faults (snd (recordDose no_faults ''r1'' ''m1'' False ''2024-03-01'' example_store))
     = [aspirin, ibuprofen]
   \<and> getDoseHistory no_faults (snd (recordDose no_faults ''r1'' ''m9'' True ''2024-03-01'' example_store))
     = [\<lparr>dose_id = ''d0'', medicationId = ''m1'', timestamp = ''2024-01-15'', taken = True\<rparr>,
        \<lparr>dose_id = ''d1'', medicationId = ''m2'', timestamp = ''2024-02-01'', taken = False\<rparr>,
        \<lparr>dose_id = ''r1'', medicationId = ''m9'', timestamp = ''2024-03-01'', taken = True\<rparr>]
   \<and> fst (recordDose no_faults ''r1'' ''m2'' True ''2024-03-01'' example_store) = Inr ()"
proof -
  have s: "setItem_fault no_faults DOSE_HISTORY_KEY = None"
    by (simp add: no_faults_simps)
  let ?c = "\<lambda>mid tk. find (\<lambda>med. med_id med = mid) (getMedications no_faults example_store) = None
         \<or> (\<exists>x. find (\<lambda>med. med_id med = mid) (getMedications no_faults example_store) = Some x
                 \<and> currentSupply x \<le> 0)
         \<or> \<not> tk"
  have c1: "?c ''m9'' True" and c2: "?c ''m2'' True" and c3: "?c ''m1'' False"
    by (simp_all add: example_store_reads aspirin_def ibuprofen_def)
  show ?thesis
    using recordDose_without_decrement [OF s c1, where rid = "''r1''" and ts = "''2024-03-01''" and fl' = no_faults]
      recordDose_without_decrement [OF s c2, where rid = "''r1''" and ts = "''2024-03-01''" and fl' = no_faults]
      recordDose_without_decrement [OF s c3, where rid = "''r1''" and ts = "''2024-03-01''" and fl' = no_faults]
    by (simp add: example_store_reads no_faults_simps getDoseHistory_written
          getMedications_dose_written)
qed

end
